theory Spec2Isabelle
  imports Main "HOL-Library.Sublist"
begin

section \<open>Conversation logging and export of the legal RAG chatbot (pages/Chatbot.py)\<close>

text \<open>
  The development embeds the conversation core of \<^verbatim>\<open>src/pages/Chatbot.py\<close>:
  \<^verbatim>\<open>log_conversation_turn\<close>, \<^verbatim>\<open>export_conversation\<close> and the part of
  \<^verbatim>\<open>handle_user_input\<close> that decides whether a turn is logged.

  Conventions.
  \<^item> A Python \<^verbatim>\<open>str\<close> is a \<open>string\<close>, one \<open>char\<close> per character of the
    Python string (so \<open>length\<close> is Python's \<^verbatim>\<open>len\<close> on strings whose characters
    all lie below code point 256).
  \<^item> Dynamically typed values (a document's metadata, the extracted metadata of the
    pipeline) are values of the datatype \<open>pyval\<close>: \<^verbatim>\<open>None\<close>, booleans, integers,
    strings, lists and dicts; a dict is an association list in insertion order. Objects
    of other classes (for instance one implementing \<^verbatim>\<open>os.PathLike\<close>) are not values of
    the model, and no property below characterises the inputs on which a library call
    raises beyond these values.
  \<^item> A raised exception is the \<open>Inl\<close> branch of a sum; \<open>Inr\<close> is normal return.
  \<^item> The Streamlit session state is a record that every operation takes and returns.
  \<^item> The wall clock (\<^verbatim>\<open>datetime.now()\<close>) is an argument of the operation that reads it.
  \<^item> Widgets that only draw text are not part of the model; the expressions evaluated
    for them are, because they can raise.
\<close>

subsection \<open>Python values and exceptions\<close>

datatype pyval =
    PNone
  | PBool bool
  | PInt int
  | PStr string
  | PList "pyval list"
  | PDict "(string \<times> pyval) list"

text \<open>Truth value testing, as in \<^verbatim>\<open>if metadata:\<close>.\<close>

fun truthy :: "pyval \<Rightarrow> bool" where
  "truthy PNone = False"
| "truthy (PBool b) = b"
| "truthy (PInt i) = (i \<noteq> 0)"
| "truthy (PStr s) = (s \<noteq> [])"
| "truthy (PList xs) = (xs \<noteq> [])"
| "truthy (PDict kvs) = (kvs \<noteq> [])"

text \<open>
  The exceptions that occur. \<open>PipelineException\<close> is any exception of class
  \<^verbatim>\<open>Exception\<close> raised by the pipeline; \<open>NonException\<close> is a \<^verbatim>\<open>BaseException\<close>
  outside \<^verbatim>\<open>Exception\<close> (\<^verbatim>\<open>KeyboardInterrupt\<close>, \<^verbatim>\<open>SystemExit\<close>), which
  \<^verbatim>\<open>except Exception\<close> does not catch.
\<close>

datatype exn =
    AttributeError
  | TypeError
  | PipelineException string
  | NonException string

fun is_Exception :: "exn \<Rightarrow> bool" where
  "is_Exception (NonException _) = False"
| "is_Exception _ = True"

text \<open>\<^verbatim>\<open>v.get(key, default)\<close>: only a dict has the method.\<close>

fun py_get :: "pyval \<Rightarrow> string \<Rightarrow> pyval \<Rightarrow> exn + pyval" where
  "py_get (PDict kvs) key dflt =
     Inr (case map_of kvs key of None \<Rightarrow> dflt | Some v \<Rightarrow> v)"
| "py_get _ key dflt = Inl AttributeError"

text \<open>A list comprehension whose element expression can raise stops at the first raise.\<close>

fun map_exn :: "('a \<Rightarrow> exn + 'b) \<Rightarrow> 'a list \<Rightarrow> exn + 'b list" where
  "map_exn f [] = Inr []"
| "map_exn f (x # xs) =
     (case f x of
        Inl e \<Rightarrow> Inl e
      | Inr y \<Rightarrow> (case map_exn f xs of Inl e \<Rightarrow> Inl e | Inr ys \<Rightarrow> Inr (y # ys)))"

subsection \<open>String operations of the Python library\<close>

text \<open>\<^verbatim>\<open>str.strip()\<close>: the characters below 256 for which \<^verbatim>\<open>str.isspace\<close> holds.\<close>

definition is_space :: "char \<Rightarrow> bool" where
  "is_space c \<longleftrightarrow>
     c \<in> set [CHR 0x09, CHR 0x0A, CHR 0x0B, CHR 0x0C, CHR 0x0D, CHR 0x1C, CHR 0x1D,
              CHR 0x1E, CHR 0x1F, CHR 0x20, CHR 0x85, CHR 0xA0]"

definition strip :: "string \<Rightarrow> string" where
  "strip s = rev (dropWhile is_space (rev (dropWhile is_space s)))"

text \<open>\<^verbatim>\<open>s.replace('\\', '/')\<close>: every backslash becomes a slash.\<close>

definition replace_backslash :: "string \<Rightarrow> string" where
  "replace_backslash s = map (\<lambda>c. if c = CHR 0x5C then CHR ''/'' else c) s"

text \<open>
  \<^verbatim>\<open>s.find(sub)\<close>: the lowest index at which \<open>sub\<close> starts in \<open>s\<close>, or \<open>-1\<close>.
  \<open>find_from\<close> scans from the left and carries the index of the position it looks at.
\<close>

fun find_from :: "string \<Rightarrow> string \<Rightarrow> nat \<Rightarrow> int" where
  "find_from sub [] i = (if sub = [] then int i else - 1)"
| "find_from sub (c # cs) i =
     (if prefix sub (c # cs) then int i else find_from sub cs (Suc i))"

definition str_find :: "string \<Rightarrow> string \<Rightarrow> int" where
  "str_find s sub = find_from sub s 0"

text \<open>\<^verbatim>\<open>s.split(sep)\<close> for a one-character separator.\<close>

fun split_sep :: "char \<Rightarrow> string \<Rightarrow> string list" where
  "split_sep sep [] = [[]]"
| "split_sep sep (c # cs) =
     (if c = sep then [] # split_sep sep cs
      else (case split_sep sep cs of [] \<Rightarrow> [[c]] | p # ps \<Rightarrow> (c # p) # ps))"

text \<open>
  \<^verbatim>\<open>pathlib.Path\<close> on a POSIX system. The components of a path are the pieces between
  slashes, without the empty ones and without \<^verbatim>\<open>.\<close>; \<^verbatim>\<open>name\<close> is the last component
  (empty when there is none) and \<^verbatim>\<open>parent.name\<close> the one before it.
\<close>

definition path_parts :: "string \<Rightarrow> string list" where
  "path_parts s = filter (\<lambda>p. p \<noteq> [] \<and> p \<noteq> ''.'') (split_sep CHR ''/'' s)"

definition parts_name :: "string list \<Rightarrow> string" where
  "parts_name ps = (if ps = [] then [] else last ps)"

definition path_name :: "string \<Rightarrow> string" where
  "path_name s = parts_name (path_parts s)"

definition path_parent_name :: "string \<Rightarrow> string" where
  "path_parent_name s = parts_name (butlast (path_parts s))"

text \<open>
  \<^verbatim>\<open>Path(v)\<close> on the values of \<open>pyval\<close>: a string is accepted, and \<^verbatim>\<open>None\<close>, a
  boolean, an integer, a list or a dict raises \<^verbatim>\<open>TypeError\<close>. (An object implementing
  \<^verbatim>\<open>os.PathLike\<close>, which \<^verbatim>\<open>Path\<close> accepts as well, is not a value of \<open>pyval\<close>.)
\<close>

fun Path :: "pyval \<Rightarrow> exn + string" where
  "Path (PStr s) = Inr s"
| "Path _ = Inl TypeError"

subsection \<open>Data model\<close>

text \<open>
  Modelled from the spec: \<^verbatim>\<open>RAGConfig\<close> (\<^verbatim>\<open>backend/config.py\<close> is not among the
  sources). The fields are those the page reads or writes.
\<close>

record RAGConfig =
  top_k :: int
  top_k_final :: int
  use_rerank :: bool
  agentic_mode :: string
  use_multiagent :: bool
  llm_model_name :: string
  embedding_model_name :: string
  vector_store_dirs :: "string list"
  data_base_dir :: string

text \<open>
  A retrieved document, as the pipeline returns it: \<^verbatim>\<open>page_content\<close> is a string,
  \<^verbatim>\<open>metadata\<close> is whatever the pipeline put there (a dict for a well-formed document;
  \<open>PNone\<close> stands for a document without metadata).
\<close>

record doc =
  page_content :: string
  metadata :: pyval

text \<open>An element of \<^verbatim>\<open>turn["raw_sources"]\<close>.\<close>

record raw_source =
  rs_page_content :: string
  rs_metadata :: pyval

text \<open>An element of \<^verbatim>\<open>turn["sources"]\<close>, the summary used for display.\<close>

record source_summary =
  db_name :: pyval
  country :: pyval
  law :: pyval
  source :: string

text \<open>
  A turn of the conversation log. The key \<^verbatim>\<open>extracted_metadata\<close> is optional:
  \<open>None\<close> is the key being absent.
\<close>

record turn =
  timestamp :: string
  question :: string
  answer :: string
  num_sources :: nat
  raw_sources :: "raw_source list"
  sources :: "source_summary list"
  extracted_metadata :: "pyval option"

text \<open>
  An element of \<^verbatim>\<open>st.session_state.messages\<close>. The assistant message stores the
  documents as returned (possibly \<^verbatim>\<open>None\<close>); its keys \<^verbatim>\<open>reasoning\<close> and
  \<^verbatim>\<open>metadata\<close> are optional.
\<close>

datatype message =
    UserMessage string string
  | AssistantMessage string string "doc list option" "string option" "pyval option"

record session_state =
  config :: RAGConfig
  messages :: "message list"
  conversation_log :: "turn list"

text \<open>
  The entries of the exported \<^verbatim>\<open>history\<close>: the user entry has the keys \<^verbatim>\<open>role\<close> and
  \<^verbatim>\<open>content\<close>, the assistant entry has \<^verbatim>\<open>role\<close>, \<^verbatim>\<open>content\<close>, \<^verbatim>\<open>contexts\<close>,
  \<^verbatim>\<open>source_ids\<close> and \<^verbatim>\<open>ground_truth\<close>.
\<close>

datatype history_entry =
    Question_entry (role: string) (content: string)
  | Answer_entry (role: string) (content: string) (contexts: "string list")
      (source_ids: "pyval list") (ground_truth: string)

record session_data =
  session_id :: int
  title :: string
  history :: "history_entry list"

text \<open>
  What an export leaves on the page: the sidebar warning, or the download button with
  the exported list of sessions (serialised by \<^verbatim>\<open>json.dumps\<close>) and its file name.
\<close>

datatype export_effect =
    Sidebar_warning string
  | Download_button "session_data list" string

subsection \<open>The turn logger\<close>

definition raw_of_doc :: "doc \<Rightarrow> raw_source" where
  "raw_of_doc d = \<lparr>rs_page_content = page_content d, rs_metadata = metadata d\<rparr>"

text \<open>
  The element expression of the \<^verbatim>\<open>sources\<close> comprehension, in evaluation order:
  \<^verbatim>\<open>doc.metadata.get\<close> needs a dict, \<^verbatim>\<open>Path(...)\<close> needs a string.
\<close>

definition summary_of_doc :: "doc \<Rightarrow> exn + source_summary" where
  "summary_of_doc d =
     (case py_get (metadata d) ''source'' (PStr []) of
        Inl e \<Rightarrow> Inl e
      | Inr src1 \<Rightarrow>
     (case Path src1 of
        Inl e \<Rightarrow> Inl e
      | Inr p1 \<Rightarrow>
     (case py_get (metadata d) ''db_name'' (PStr (path_parent_name p1)) of
        Inl e \<Rightarrow> Inl e
      | Inr dbn \<Rightarrow>
     (case py_get (metadata d) ''country'' PNone of
        Inl e \<Rightarrow> Inl e
      | Inr ctry \<Rightarrow>
     (case py_get (metadata d) ''law'' PNone of
        Inl e \<Rightarrow> Inl e
      | Inr lw \<Rightarrow>
     (case py_get (metadata d) ''source'' (PStr []) of
        Inl e \<Rightarrow> Inl e
      | Inr src2 \<Rightarrow>
     (case Path src2 of
        Inl e \<Rightarrow> Inl e
      | Inr p2 \<Rightarrow>
          Inr \<lparr>db_name = dbn, country = ctry, law = lw, source = path_name p2\<rparr>)))))))"

text \<open>
  \<^verbatim>\<open>log_conversation_turn(question, answer, docs, metadata=None)\<close>. The first argument
  is the time stamp read from the clock; \<open>docs\<close> may be \<^verbatim>\<open>None\<close>.
\<close>

definition log_conversation_turn ::
  "string \<Rightarrow> string \<Rightarrow> string \<Rightarrow> doc list option \<Rightarrow> pyval \<Rightarrow> session_state
     \<Rightarrow> exn + session_state" where
  "log_conversation_turn now q a docs md st =
     (let ds = (case docs of None \<Rightarrow> [] | Some xs \<Rightarrow> xs) in
      case map_exn summary_of_doc ds of
        Inl e \<Rightarrow> Inl e
      | Inr summaries \<Rightarrow>
          (let turn0 = \<lparr>timestamp = now, question = q, answer = a,
                        num_sources = length ds,
                        raw_sources = map raw_of_doc ds,
                        sources = summaries,
                        extracted_metadata = None\<rparr>;
               turn1 = (if truthy md then turn0\<lparr>extracted_metadata := Some md\<rparr> else turn0)
           in Inr (st\<lparr>conversation_log := conversation_log st @ [turn1]\<rparr>)))"

subsection \<open>The export\<close>

text \<open>
  The body of the \<^verbatim>\<open>try\<close> block: a source that is not a string has no
  \<^verbatim>\<open>replace\<close> method.
\<close>

definition relative_path :: "string \<Rightarrow> pyval \<Rightarrow> exn + pyval" where
  "relative_path base src_path_abs =
     (case src_path_abs of
        PStr s \<Rightarrow>
          (let normalized_path = replace_backslash s;
               start_index = str_find normalized_path (base @ ''/'')
           in if start_index \<noteq> - 1
              then Inr (PStr (drop (nat start_index) normalized_path))
              else Inr src_path_abs)
      | _ \<Rightarrow> Inl AttributeError)"

text \<open>The \<^verbatim>\<open>try\<close> with its handler: the value appended to \<^verbatim>\<open>source_ids\<close>.\<close>

definition source_id_of :: "string \<Rightarrow> pyval \<Rightarrow> pyval" where
  "source_id_of base src_path_abs =
     (case relative_path base src_path_abs of
        Inr v \<Rightarrow> v
      | Inl e \<Rightarrow> src_path_abs)"

text \<open>
  One pass of the inner loop over \<^verbatim>\<open>turn["raw_sources"]\<close>, on the two accumulators.
  \<^verbatim>\<open>meta.get\<close> is outside the \<^verbatim>\<open>try\<close>.
\<close>

definition export_source ::
  "string \<Rightarrow> raw_source \<Rightarrow> string list \<times> pyval list \<Rightarrow> exn + (string list \<times> pyval list)" where
  "export_source base src acc =
     (let contexts1 = fst acc @ [strip (rs_page_content src)] in
      case py_get (rs_metadata src) ''source'' (PStr ''unknown_source'') of
        Inl e \<Rightarrow> Inl e
      | Inr src_path_abs \<Rightarrow> Inr (contexts1, snd acc @ [source_id_of base src_path_abs]))"

fun export_sources ::
  "string \<Rightarrow> raw_source list \<Rightarrow> string list \<times> pyval list \<Rightarrow> exn + (string list \<times> pyval list)" where
  "export_sources base [] acc = Inr acc"
| "export_sources base (src # srcs) acc =
     (case export_source base src acc of
        Inl e \<Rightarrow> Inl e
      | Inr acc1 \<Rightarrow> export_sources base srcs acc1)"

text \<open>The outer loop over the turns, on the accumulator \<^verbatim>\<open>history\<close>.\<close>

fun export_history ::
  "string \<Rightarrow> turn list \<Rightarrow> history_entry list \<Rightarrow> exn + history_entry list" where
  "export_history base [] hist = Inr hist"
| "export_history base (t # ts) hist =
     (let hist1 = hist @ [Question_entry ''user'' (question t)] in
      case export_sources base (raw_sources t) ([], []) of
        Inl e \<Rightarrow> Inl e
      | Inr (ctxs, sids) \<Rightarrow>
          export_history base ts
            (hist1 @ [Answer_entry ''assistant'' (answer t) ctxs sids []]))"

definition make_title :: "string \<Rightarrow> string" where
  "make_title first_question =
     (if length first_question > 60 then take 60 first_question @ ''...''
      else first_question)"

text \<open>
  \<^verbatim>\<open>export_conversation()\<close>. The arguments \<open>now_seconds\<close> and \<open>now_stamp\<close> are the
  two readings of the clock: the epoch seconds for \<^verbatim>\<open>id\<close> and the formatted time in
  the file name.
\<close>

definition export_conversation :: "int \<Rightarrow> string \<Rightarrow> session_state \<Rightarrow> exn + export_effect" where
  "export_conversation now_seconds now_stamp st =
     (case conversation_log st of
        [] \<Rightarrow> Inr (Sidebar_warning ''No conversation to export'')
      | first_turn # rest \<Rightarrow>
          (let BASE_FOLDER_NAME = path_name (data_base_dir (config st));
               ttl = make_title (question first_turn)
           in case export_history BASE_FOLDER_NAME (conversation_log st) [] of
                Inl e \<Rightarrow> Inl e
              | Inr hist \<Rightarrow>
                  Inr (Download_button
                         [\<lparr>session_id = now_seconds, title = ttl, history = hist\<rparr>]
                         (''chat_session_'' @ now_stamp @ ''.json''))))"

subsection \<open>Handling a user input\<close>

text \<open>
  Modelled from the spec: the pipeline \<^verbatim>\<open>answer_question\<close>
  (\<^verbatim>\<open>backend/rag_pipeline.py\<close> is not among the sources) is an argument: given the
  question, the configuration and the reasoning flag it raises, or returns the answer,
  the documents, the reasoning trace and the extracted metadata.
\<close>

type_synonym pipeline =
  "string \<Rightarrow> RAGConfig \<Rightarrow> bool \<Rightarrow> exn + (string \<times> doc list option \<times> string option \<times> pyval)"

text \<open>
  The expressions evaluated to draw one document in the sources expander; they raise
  where the summary of the logger raises.
\<close>

definition render_source :: "doc \<Rightarrow> exn + unit" where
  "render_source d =
     (case py_get (metadata d) ''source'' (PStr []) of
        Inl e \<Rightarrow> Inl e
      | Inr src1 \<Rightarrow>
     (case Path src1 of
        Inl e \<Rightarrow> Inl e
      | Inr p1 \<Rightarrow> Inr ()))"

definition render_sources :: "doc list option \<Rightarrow> exn + unit" where
  "render_sources docs =
     (case docs of
        None \<Rightarrow> Inr ()
      | Some ds \<Rightarrow> (case map_exn render_source ds of Inl e \<Rightarrow> Inl e | Inr _ \<Rightarrow> Inr ()))"

text \<open>How the handler ends: with the rerun, with the error box, or by an exception that escapes.\<close>

datatype handled = Rerun | Error_shown exn | Propagated exn

definition on_exception :: "session_state \<Rightarrow> exn \<Rightarrow> session_state \<times> handled" where
  "on_exception st e = (st, if is_Exception e then Error_shown e else Propagated e)"

definition handle_user_input ::
  "pipeline \<Rightarrow> string \<Rightarrow> string \<Rightarrow> bool \<Rightarrow> session_state \<Rightarrow> session_state \<times> handled" where
  "handle_user_input answer_question now prompt show_reasoning st =
     (let st1 = st\<lparr>messages := messages st @ [UserMessage ''user'' prompt]\<rparr> in
      case answer_question prompt (config st1) show_reasoning of
        Inl e \<Rightarrow> on_exception st1 e
      | Inr (ans, docs, reasoning, md) \<Rightarrow>
          (case render_sources docs of
             Inl e \<Rightarrow> on_exception st1 e
           | Inr _ \<Rightarrow>
               (let assistant_message =
                      AssistantMessage ''assistant'' ans docs
                        (if reasoning \<noteq> None \<and> reasoning \<noteq> Some [] then reasoning else None)
                        (if truthy md then Some md else None);
                    st2 = st1\<lparr>messages := messages st1 @ [assistant_message]\<rparr>
                in case log_conversation_turn now prompt ans docs md st2 of
                     Inl e \<Rightarrow> on_exception st2 e
                   | Inr st3 \<Rightarrow> (st3, Rerun))))"

text \<open>The button that clears the conversation.\<close>

definition clear_conversation :: "session_state \<Rightarrow> session_state" where
  "clear_conversation st = st\<lparr>messages := [], conversation_log := []\<rparr>"

subsection \<open>Notions used to state the properties\<close>




text \<open>
  The export calls \<^verbatim>\<open>meta.get\<close> outside its \<^verbatim>\<open>try\<close>, so it relies on the metadata
  of every logged raw source being a dict. \<open>log_wf\<close> is that invariant of the
  conversation log; the logger establishes it (lemma \<open>log_conversation_turn_wf\<close> below),
  because it raises on every document whose metadata is not a dict.
\<close>

fun is_dict :: "pyval \<Rightarrow> bool" where
  "is_dict (PDict kvs) = True"
| "is_dict _ = False"

definition log_wf :: "turn list \<Rightarrow> bool" where
  "log_wf log \<longleftrightarrow> list_all (\<lambda>t. list_all (\<lambda>r. is_dict (rs_metadata r)) (raw_sources t)) log"

text \<open>
  The value the export reads as the source of a logged document: the entry
  \<^verbatim>\<open>source\<close> of its metadata, or the string \<^verbatim>\<open>unknown_source\<close> when there is none.
\<close>

fun metadata_source :: "pyval \<Rightarrow> pyval" where
  "metadata_source (PDict kvs) =
     (case map_of kvs ''source'' of None \<Rightarrow> PStr ''unknown_source'' | Some v \<Rightarrow> v)"
| "metadata_source v = PStr ''unknown_source''"

text \<open>
  The two history entries that a turn is expected to contribute: the question, then the
  answer with the trimmed texts and the source ids of its raw sources, in their order.
\<close>

definition turn_entries :: "string \<Rightarrow> turn \<Rightarrow> history_entry list" where
  "turn_entries base t =
     [Question_entry ''user'' (question t),
      Answer_entry ''assistant'' (answer t)
        (map (\<lambda>r. strip (rs_page_content r)) (raw_sources t))
        (map (\<lambda>r. source_id_of base (metadata_source (rs_metadata r))) (raw_sources t))
        []]"

subsection \<open>Concrete inputs\<close>

definition config0 :: RAGConfig where
  "config0 = \<lparr>top_k = 10, top_k_final = 5, use_rerank = True, agentic_mode = ''react'',
      use_multiagent = False, llm_model_name = ''llm'', embedding_model_name = ''emb'',
      vector_store_dirs = [''vector_store/italy_codes''],
      data_base_dir = ''/srv/rag/Contest_Data''\<rparr>"

definition state0 :: session_state where
  "state0 = \<lparr>config = config0, messages = [], conversation_log = []\<rparr>"

definition civil_code :: raw_source where
  "civil_code = \<lparr>rs_page_content = '' Art. 143 '',
      rs_metadata = PDict [(''source'', PStr ''/home/x/Contest_Data/italy_codes/civil_code.pdf'')]\<rparr>"



definition civil_doc :: doc where
  "civil_doc = \<lparr>page_content = '' Art. 143 '',
      metadata = PDict [(''source'', PStr ''/home/x/Contest_Data/italy_codes/civil_code.pdf'')]\<rparr>"

definition long_question :: string where
  "long_question = ''Which duties do spouses have towards each other under the Italian civil code?''"

definition turn1 :: turn where
  "turn1 = \<lparr>timestamp = ''2025-01-01T10:00:00'', question = long_question,
      answer = ''Fidelity and assistance.'', num_sources = 1,
      raw_sources = [civil_code],
      sources = [\<lparr>db_name = PStr ''italy_codes'', country = PNone, law = PNone,
                  source = ''civil_code.pdf''\<rparr>],
      extracted_metadata = None\<rparr>"

definition state1 :: session_state where
  "state1 = \<lparr>config = config0, messages = [], conversation_log = [turn1]\<rparr>"

definition state1_moved :: session_state where
  "state1_moved = state1\<lparr>config := config0\<lparr>data_base_dir := ''/mnt/backup/Contest_Data''\<rparr>\<rparr>"

definition no_metadata_doc :: doc where
  "no_metadata_doc = \<lparr>page_content = ''Art. 144'', metadata = PNone\<rparr>"

definition italy_metadata :: pyval where
  "italy_metadata = PDict [(''country'', PStr ''Italy'')]"

definition failing_pipeline :: pipeline where
  "failing_pipeline q cfg show_reasoning = Inl (PipelineException ''connection refused'')"

definition malformed_pipeline :: pipeline where
  "malformed_pipeline q cfg show_reasoning =
     Inr (''It ends a marriage.'', Some [no_metadata_doc], None, PNone)"

definition mixed_pipeline :: pipeline where
  "mixed_pipeline q cfg show_reasoning =
     Inr (''It ends a marriage.'', Some [civil_doc, no_metadata_doc], None, italy_metadata)"

section \<open>Properties\<close>

subsection \<open>Searching a substring\<close>







subsection \<open>The canonical source id\<close>







subsection \<open>The turn logger and the display loop\<close>

lemma Path_Inl: "Path v = Inl e \<Longrightarrow> e = TypeError"
  by (cases v) simp_all

lemma summary_of_doc_Inl:
  "summary_of_doc d = Inl e \<Longrightarrow> e = AttributeError \<or> e = TypeError"
  by (cases "metadata d")
     (auto simp add: summary_of_doc_def dest: Path_Inl split: option.splits sum.splits)

lemma map_exn_Inr:
  "(\<exists>ys. map_exn f xs = Inr ys) \<longleftrightarrow> list_all (\<lambda>x. \<exists>y. f x = Inr y) xs"
  by (induction xs) (auto split: sum.splits)

lemma map_exn_length: "map_exn f xs = Inr ys \<Longrightarrow> length ys = length xs"
  by (induction xs arbitrary: ys) (auto split: sum.splits)

lemma map_exn_Inl: "map_exn f xs = Inl e \<Longrightarrow> \<exists>x\<in>set xs. f x = Inl e"
  by (induction xs) (auto split: sum.splits)

text \<open>
  The display loop of the handler and the summary of the logger evaluate the same
  expressions on a document, so one returns where the other does, and only on a document
  whose metadata is a dict.
\<close>

lemma render_source_is_dict: "render_source d = Inr u \<Longrightarrow> is_dict (metadata d)"
  by (cases "metadata d") (simp_all add: render_source_def)

lemma render_source_not_dict:
  "\<not> is_dict (metadata d) \<Longrightarrow> render_source d = Inl AttributeError"
  by (cases "metadata d") (simp_all add: render_source_def)

lemma render_source_Inl: "render_source d = Inl e \<Longrightarrow> e = AttributeError \<or> e = TypeError"
  by (cases "metadata d") (auto simp add: render_source_def dest: Path_Inl split: sum.splits)

lemma summary_of_doc_is_dict: "summary_of_doc d = Inr s \<Longrightarrow> is_dict (metadata d)"
  by (cases "metadata d") (simp_all add: summary_of_doc_def)

lemma summary_iff_render:
  "(\<exists>s. summary_of_doc d = Inr s) \<longleftrightarrow> (\<exists>u. render_source d = Inr u)"
  by (cases "metadata d")
     (auto simp add: summary_of_doc_def render_source_def split: sum.splits)

lemma rendered_summaries:
  assumes "render_sources docs = Inr u"
  shows "\<exists>ss. map_exn summary_of_doc (case docs of None \<Rightarrow> [] | Some xs \<Rightarrow> xs) = Inr ss"
proof (cases docs)
  case None
  then show ?thesis by simp
next
  case (Some ds)
  with assms have "\<exists>us. map_exn render_source ds = Inr us"
    by (cases "map_exn render_source ds") (simp_all add: render_sources_def)
  then have "list_all (\<lambda>d. \<exists>u. render_source d = Inr u) ds"
    by (simp add: map_exn_Inr)
  then have "list_all (\<lambda>d. \<exists>s. summary_of_doc d = Inr s) ds"
    by (simp add: summary_iff_render)
  then show ?thesis using Some by (simp add: map_exn_Inr)
qed

lemma render_sources_rejects:
  assumes d: "d \<in> set ds" and nd: "\<not> is_dict (metadata d)"
  shows "\<exists>e. render_sources (Some ds) = Inl e \<and> is_Exception e"
proof (cases "map_exn render_source ds")
  case (Inl e)
  then obtain x where "render_source x = Inl e" by (blast dest: map_exn_Inl)
  then have "e = AttributeError \<or> e = TypeError" by (rule render_source_Inl)
  then have "is_Exception e" by auto
  with Inl show ?thesis by (simp add: render_sources_def)
next
  case (Inr us)
  then have "list_all (\<lambda>d. \<exists>u. render_source d = Inr u) ds"
    using map_exn_Inr [of render_source ds] by blast
  with d obtain u where "render_source d = Inr u" by (auto simp add: list_all_iff)
  with nd show ?thesis by (simp add: render_source_not_dict)
qed

text \<open>
What a call that returns has done: one turn, built from the arguments, is appended.
\<close>

lemma log_conversation_turn_Inr:
  assumes "log_conversation_turn now q a docs md st = Inr st'"
  obtains ss where
    "map_exn summary_of_doc (case docs of None \<Rightarrow> [] | Some xs \<Rightarrow> xs) = Inr ss"
    "st' = st\<lparr>conversation_log := conversation_log st @
        [\<lparr>timestamp = now, question = q, answer = a,
          num_sources = length (case docs of None \<Rightarrow> [] | Some xs \<Rightarrow> xs),
          raw_sources = map raw_of_doc (case docs of None \<Rightarrow> [] | Some xs \<Rightarrow> xs),
          sources = ss,
          extracted_metadata = (if truthy md then Some md else None)\<rparr>]\<rparr>"
  using assms
  by (cases "map_exn summary_of_doc (case docs of None \<Rightarrow> [] | Some xs \<Rightarrow> xs)")
     (auto simp add: log_conversation_turn_def Let_def)

text \<open>
The logger produces the state \<open>state1\<close> from the empty session.
\<close>

lemma log_turn1:
  "log_conversation_turn ''2025-01-01T10:00:00'' long_question ''Fidelity and assistance.''
     (Some [civil_doc]) PNone state0 = Inr state1"
  by (simp add: log_conversation_turn_def summary_of_doc_def civil_doc_def state0_def state1_def
      turn1_def civil_code_def raw_of_doc_def path_parent_name_def path_name_def path_parts_def
      parts_name_def)

text \<open>
The handler calls the logger only after the display loop, and then a turn is appended.
\<close>

lemma handle_user_input_logs:
  assumes p: "answer_question prompt (config st) sr = Inr (ans, docs, reasoning, md)"
    and r: "render_sources docs = Inr u"
  shows "\<exists>st' t. handle_user_input answer_question now prompt sr st = (st', Rerun) \<and>
      conversation_log st' = conversation_log st @ [t] \<and>
      question t = prompt \<and> answer t = ans"
proof -
  let ?ds = "case docs of None \<Rightarrow> [] | Some xs \<Rightarrow> xs"
  from rendered_summaries [OF r] obtain ss where ss: "map_exn summary_of_doc ?ds = Inr ss" ..
  show ?thesis
    using p r ss
    by (cases u) (simp add: handle_user_input_def log_conversation_turn_def Let_def)
qed

subsection \<open>The invariant of the conversation log\<close>

text \<open>
  The log is empty at the start and after a clear, and only the logger appends to it, so
  every log that the page can hold satisfies \<open>log_wf\<close>.
\<close>

lemma log_wf_Nil: "log_wf []"
  by (simp add: log_wf_def)

lemma log_conversation_turn_wf:
  assumes wf: "log_wf (conversation_log st)"
    and r: "log_conversation_turn now q a docs md st = Inr st'"
  shows "log_wf (conversation_log st')"
proof -
  let ?ds = "case docs of None \<Rightarrow> [] | Some xs \<Rightarrow> xs"
  from r obtain ss where ss: "map_exn summary_of_doc ?ds = Inr ss"
    and st': "st' = st\<lparr>conversation_log := conversation_log st @
        [\<lparr>timestamp = now, question = q, answer = a, num_sources = length ?ds,
          raw_sources = map raw_of_doc ?ds, sources = ss,
          extracted_metadata = (if truthy md then Some md else None)\<rparr>]\<rparr>"
    by (rule log_conversation_turn_Inr)
  from ss have "list_all (\<lambda>d. \<exists>s. summary_of_doc d = Inr s) ?ds"
    using map_exn_Inr [of summary_of_doc ?ds] by blast
  then have "list_all (\<lambda>d. is_dict (metadata d)) ?ds"
    by (auto simp add: list_all_iff dest: summary_of_doc_is_dict)
  then have "list_all (\<lambda>r. is_dict (rs_metadata r)) (map raw_of_doc ?ds)"
    by (simp add: list_all_iff raw_of_doc_def)
  with wf show ?thesis by (simp add: st' log_wf_def)
qed

lemma clear_conversation_wf: "log_wf (conversation_log (clear_conversation st))"
  by (simp add: clear_conversation_def log_wf_def)

lemma handle_user_input_wf:
  assumes wf: "log_wf (conversation_log st)"
  shows "log_wf (conversation_log (fst (handle_user_input answer_question now prompt sr st)))"
proof -
  let ?st1 = "st\<lparr>messages := messages st @ [UserMessage ''user'' prompt]\<rparr>"
  show ?thesis
  proof (cases "answer_question prompt (config st) sr")
    case (Inl e)
    with wf show ?thesis by (simp add: handle_user_input_def on_exception_def)
  next
    case (Inr res)
    obtain ans docs reasoning md where res: "res = (ans, docs, reasoning, md)"
      by (cases res) auto
    show ?thesis
    proof (cases "render_sources docs")
      case (Inl e)
      with wf Inr res show ?thesis by (simp add: handle_user_input_def on_exception_def)
    next
      case rs: (Inr u)
      let ?st2 = "?st1\<lparr>messages := messages ?st1 @
          [AssistantMessage ''assistant'' ans docs
             (if reasoning \<noteq> None \<and> reasoning \<noteq> Some [] then reasoning else None)
             (if truthy md then Some md else None)]\<rparr>"
      have wf2: "log_wf (conversation_log ?st2)" using wf by simp
      show ?thesis
      proof (cases "log_conversation_turn now prompt ans docs md ?st2")
        case (Inl e)
        with wf Inr res rs show ?thesis
          by (simp add: handle_user_input_def on_exception_def Let_def)
      next
        case l: (Inr st3)
        from log_conversation_turn_wf [OF wf2 l] have "log_wf (conversation_log st3)" .
        with Inr res rs l show ?thesis
          by (simp add: handle_user_input_def Let_def)
      qed
    qed
  qed
qed

lemma log_wf_state1: "log_wf (conversation_log state1)"
  by (simp add: log_wf_def state1_def turn1_def civil_code_def)

subsection \<open>The export loops\<close>

lemma export_source_dict:
  "is_dict (rs_metadata r) \<Longrightarrow>
   export_source base r acc =
     Inr (fst acc @ [strip (rs_page_content r)],
          snd acc @ [source_id_of base (metadata_source (rs_metadata r))])"
  by (cases "rs_metadata r") (simp_all add: export_source_def)

lemma export_source_not_dict:
  "\<not> is_dict (rs_metadata r) \<Longrightarrow> export_source base r acc = Inl AttributeError"
  by (cases "rs_metadata r") (simp_all add: export_source_def)

lemma export_sources_dicts:
  "list_all (\<lambda>r. is_dict (rs_metadata r)) srcs \<Longrightarrow>
   export_sources base srcs acc =
     Inr (fst acc @ map (\<lambda>r. strip (rs_page_content r)) srcs,
          snd acc @ map (\<lambda>r. source_id_of base (metadata_source (rs_metadata r))) srcs)"
proof (induction srcs arbitrary: acc)
  case Nil
  then show ?case by simp
next
  case (Cons r srcs)
  then show ?case by (simp add: export_source_dict)
qed

lemma export_sources_not_dicts:
  "\<not> list_all (\<lambda>r. is_dict (rs_metadata r)) srcs \<Longrightarrow>
   export_sources base srcs acc = Inl AttributeError"
proof (induction srcs arbitrary: acc)
  case Nil
  then show ?case by simp
next
  case (Cons r srcs)
  show ?case
  proof (cases "is_dict (rs_metadata r)")
    case True
    with Cons.prems have "\<not> list_all (\<lambda>r. is_dict (rs_metadata r)) srcs" by simp
    from Cons.IH [OF this] True show ?thesis by (simp add: export_source_dict)
  next
    case False
    then show ?thesis by (simp add: export_source_not_dict)
  qed
qed

text \<open>
On a log with the invariant the outer loop appends the two entries of each turn.
\<close>

lemma export_history_wf:
  "log_wf log \<Longrightarrow>
   export_history base log hist = Inr (hist @ concat (map (turn_entries base) log))"
proof (induction log arbitrary: hist)
  case Nil
  then show ?case by simp
next
  case (Cons t ts)
  from Cons.prems have d: "list_all (\<lambda>r. is_dict (rs_metadata r)) (raw_sources t)"
    and wf: "log_wf ts"
    by (simp_all add: log_wf_def)
  show ?case
    by (simp add: export_sources_dicts [OF d] Cons.IH [OF wf] turn_entries_def)
qed

text \<open>
Without the invariant the export raises: the invariant is exactly what it needs.
\<close>

lemma export_history_not_wf:
  "\<not> log_wf log \<Longrightarrow> export_history base log hist = Inl AttributeError"
proof (induction log arbitrary: hist)
  case Nil
  then show ?case by (simp add: log_wf_def)
next
  case (Cons t ts)
  show ?case
  proof (cases "list_all (\<lambda>r. is_dict (rs_metadata r)) (raw_sources t)")
    case True
    with Cons.prems have nwf: "\<not> log_wf ts" by (simp add: log_wf_def)
    from Cons.IH [OF nwf] show ?thesis by (simp add: export_sources_dicts [OF True])
  next
    case False
    from export_sources_not_dicts [OF False] show ?thesis by simp
  qed
qed

lemma length_turn_entries: "length (concat (map (turn_entries base) log)) = 2 * length log"
  by (induction log) (simp_all add: turn_entries_def)

lemma nth_turn_entries:
  "i < length log \<Longrightarrow>
   concat (map (turn_entries base) log) ! (2 * i) = turn_entries base (log ! i) ! 0 \<and>
   concat (map (turn_entries base) log) ! (2 * i + 1) = turn_entries base (log ! i) ! 1"
proof (induction log arbitrary: i)
  case Nil
  then show ?case by simp
next
  case (Cons t ts)
  show ?case
  proof (cases i)
    case 0
    then show ?thesis by (simp add: turn_entries_def)
  next
    case (Suc j)
    with Cons.prems have "j < length ts" by simp
    from Cons.IH [OF this] Suc show ?thesis by (simp add: turn_entries_def)
  qed
qed

lemma export_conversation_wf:
  assumes log: "conversation_log st = t # ts" and wf: "log_wf (conversation_log st)"
  shows "export_conversation now_seconds now_stamp st =
     Inr (Download_button
            [\<lparr>session_id = now_seconds, title = make_title (question t),
              history = concat (map (turn_entries (path_name (data_base_dir (config st))))
                                    (conversation_log st))\<rparr>]
            (''chat_session_'' @ now_stamp @ ''.json''))"
proof -
  have "export_history (path_name (data_base_dir (config st))) (t # ts) []
      = Inr (concat (map (turn_entries (path_name (data_base_dir (config st)))) (t # ts)))"
    using export_history_wf [OF wf, of "path_name (data_base_dir (config st))" "[]"]
    unfolding log by simp
  then show ?thesis
    by (simp add: export_conversation_def log Let_def del: export_history.simps)
qed

lemma export_state1:
  "export_conversation 1735725600 ''20250101_100000'' state1 =
     Inr (Download_button
       [\<lparr>session_id = 1735725600,
         title = ''Which duties do spouses have towards each other under the It...'',
         history = [Question_entry ''user'' long_question,
                    Answer_entry ''assistant'' ''Fidelity and assistance.'' [''Art. 143'']
                      [PStr ''Contest_Data/italy_codes/civil_code.pdf''] []]\<rparr>]
       ''chat_session_20250101_100000.json'')"
  by (simp add: export_conversation_def state1_def turn1_def civil_code_def config0_def
      export_source_def source_id_of_def relative_path_def str_find_def replace_backslash_def
      strip_def is_space_def make_title_def long_question_def
      path_name_def path_parts_def parts_name_def)

subsection \<open>Claims about the export\<close>

text \<open>
  Claim C2. Exporting a non-empty log (with the invariant of logged turns) yields one
  session whose history has, for the turn at index \<open>i\<close>, at position \<open>2 * i + 1\<close> the
  assistant entry of that turn; its contexts and its source ids have the length of the
  turn's raw sources, and at every index \<open>j\<close> the context is the trimmed text of the
  \<open>j\<close>-th raw source and the source id is the canonical id of the same raw source. Every
  entry of the history with the role \<^verbatim>\<open>assistant\<close> has as many contexts as source ids.
\<close>

theorem contexts_aligned_with_source_ids:
  assumes ne: "conversation_log st \<noteq> []" and wf: "log_wf (conversation_log st)"
  shows "\<exists>sd fname.
      export_conversation now_seconds now_stamp st = Inr (Download_button [sd] fname) \<and>
      (\<forall>i<length (conversation_log st). \<exists>ctxs sids.
          history sd ! (2 * i + 1)
            = Answer_entry ''assistant'' (answer (conversation_log st ! i)) ctxs sids [] \<and>
          length ctxs = length sids \<and>
          length ctxs = length (raw_sources (conversation_log st ! i)) \<and>
          (\<forall>j<length (raw_sources (conversation_log st ! i)).
              ctxs ! j = strip (rs_page_content (raw_sources (conversation_log st ! i) ! j)) \<and>
              sids ! j = source_id_of (path_name (data_base_dir (config st)))
                 (metadata_source (rs_metadata (raw_sources (conversation_log st ! i) ! j))))) \<and>
      (\<forall>e\<in>set (history sd). role e = ''assistant'' \<longrightarrow>
          (\<exists>c ctxs sids g. e = Answer_entry ''assistant'' c ctxs sids g \<and>
                           length ctxs = length sids))"
proof -
  let ?base = "path_name (data_base_dir (config st))"
  let ?log = "conversation_log st"
  let ?hist = "concat (map (turn_entries ?base) ?log)"
  from ne obtain t ts where log: "?log = t # ts" by (cases ?log) auto
  let ?sd = "\<lparr>session_id = now_seconds, title = make_title (question t), history = ?hist\<rparr>"
  have ex: "export_conversation now_seconds now_stamp st
      = Inr (Download_button [?sd] (''chat_session_'' @ now_stamp @ ''.json''))"
    by (rule export_conversation_wf [OF log wf])
  have idx: "\<forall>i<length ?log. \<exists>ctxs sids.
          history ?sd ! (2 * i + 1) = Answer_entry ''assistant'' (answer (?log ! i)) ctxs sids [] \<and>
          length ctxs = length sids \<and>
          length ctxs = length (raw_sources (?log ! i)) \<and>
          (\<forall>j<length (raw_sources (?log ! i)).
              ctxs ! j = strip (rs_page_content (raw_sources (?log ! i) ! j)) \<and>
              sids ! j = source_id_of ?base
                 (metadata_source (rs_metadata (raw_sources (?log ! i) ! j))))"
  proof (intro allI impI)
    fix i assume i: "i < length ?log"
    have "history ?sd ! (2 * i + 1) = turn_entries ?base (?log ! i) ! 1"
      using nth_turn_entries [OF i, of ?base] by simp
    then show "\<exists>ctxs sids.
          history ?sd ! (2 * i + 1) = Answer_entry ''assistant'' (answer (?log ! i)) ctxs sids [] \<and>
          length ctxs = length sids \<and>
          length ctxs = length (raw_sources (?log ! i)) \<and>
          (\<forall>j<length (raw_sources (?log ! i)).
              ctxs ! j = strip (rs_page_content (raw_sources (?log ! i) ! j)) \<and>
              sids ! j = source_id_of ?base
                 (metadata_source (rs_metadata (raw_sources (?log ! i) ! j))))"
      by (simp add: turn_entries_def)
  qed
  have all: "\<forall>e\<in>set (history ?sd). role e = ''assistant'' \<longrightarrow>
          (\<exists>c ctxs sids g. e = Answer_entry ''assistant'' c ctxs sids g \<and>
                           length ctxs = length sids)"
    by (auto simp add: turn_entries_def)
  from ex idx all show ?thesis by blast
qed

text \<open>
The export of the one-turn session \<open>state1\<close>, read off the theorem.
\<close>

theorem contexts_aligned_with_source_ids_witness:
  "conversation_log state1 \<noteq> [] \<and> log_wf (conversation_log state1) \<and>
   (\<exists>sd fname ctxs sids.
      export_conversation 1735725600 ''20250101_100000'' state1
        = Inr (Download_button [sd] fname) \<and>
      history sd ! 1 = Answer_entry ''assistant'' ''Fidelity and assistance.'' ctxs sids [] \<and>
      length ctxs = length sids \<and> length ctxs = 1 \<and>
      ctxs ! 0 = ''Art. 143'' \<and>
      sids ! 0 = PStr ''Contest_Data/italy_codes/civil_code.pdf'')"
proof -
  have ne: "conversation_log state1 \<noteq> []" by (simp add: state1_def)
  have wf: "log_wf (conversation_log state1)"
    by (simp add: log_wf_def state1_def turn1_def civil_code_def)
  from contexts_aligned_with_source_ids [OF ne wf, of 1735725600 "''20250101_100000''"]
  obtain sd fname where
    e: "export_conversation 1735725600 ''20250101_100000'' state1
          = Inr (Download_button [sd] fname)"
    and a: "\<forall>i<length (conversation_log state1). \<exists>ctxs sids.
          history sd ! (2 * i + 1)
            = Answer_entry ''assistant'' (answer (conversation_log state1 ! i)) ctxs sids [] \<and>
          length ctxs = length sids \<and>
          length ctxs = length (raw_sources (conversation_log state1 ! i)) \<and>
          (\<forall>j<length (raw_sources (conversation_log state1 ! i)).
              ctxs ! j = strip (rs_page_content (raw_sources (conversation_log state1 ! i) ! j)) \<and>
              sids ! j = source_id_of (path_name (data_base_dir (config state1)))
                 (metadata_source (rs_metadata (raw_sources (conversation_log state1 ! i) ! j))))"
    by blast
  from a have "\<exists>ctxs sids.
      history sd ! 1 = Answer_entry ''assistant'' ''Fidelity and assistance.'' ctxs sids [] \<and>
      length ctxs = length sids \<and> length ctxs = 1 \<and>
      ctxs ! 0 = ''Art. 143'' \<and>
      sids ! 0 = PStr ''Contest_Data/italy_codes/civil_code.pdf''"
    by (simp add: state1_def turn1_def civil_code_def config0_def strip_def is_space_def
        source_id_of_def relative_path_def str_find_def replace_backslash_def
        path_name_def path_parts_def parts_name_def)
  with ne wf e show ?thesis by blast
qed

text \<open>
  Claim C3. Exporting a non-empty log of \<open>n\<close> turns (with the invariant of logged turns)
  yields a history of \<open>2 * n\<close> entries: for the turn at index \<open>i\<close>, position \<open>2 * i\<close>
  holds the \<^verbatim>\<open>user\<close> entry with the turn's question and position \<open>2 * i + 1\<close> the
  \<^verbatim>\<open>assistant\<close> entry with the turn's answer and the empty string as ground truth.
\<close>

theorem history_alternates:
  assumes ne: "conversation_log st \<noteq> []" and wf: "log_wf (conversation_log st)"
  shows "\<exists>sd fname.
      export_conversation now_seconds now_stamp st = Inr (Download_button [sd] fname) \<and>
      length (history sd) = 2 * length (conversation_log st) \<and>
      (\<forall>i<length (conversation_log st).
          history sd ! (2 * i) = Question_entry ''user'' (question (conversation_log st ! i)) \<and>
          (\<exists>ctxs sids. history sd ! (2 * i + 1)
             = Answer_entry ''assistant'' (answer (conversation_log st ! i)) ctxs sids []))"
proof -
  let ?base = "path_name (data_base_dir (config st))"
  let ?log = "conversation_log st"
  let ?hist = "concat (map (turn_entries ?base) ?log)"
  from ne obtain t ts where log: "?log = t # ts" by (cases ?log) auto
  let ?sd = "\<lparr>session_id = now_seconds, title = make_title (question t), history = ?hist\<rparr>"
  have ex: "export_conversation now_seconds now_stamp st
      = Inr (Download_button [?sd] (''chat_session_'' @ now_stamp @ ''.json''))"
    by (rule export_conversation_wf [OF log wf])
  have len: "length (history ?sd) = 2 * length ?log"
    by (simp add: length_turn_entries)
  have idx: "\<forall>i<length ?log.
          history ?sd ! (2 * i) = Question_entry ''user'' (question (?log ! i)) \<and>
          (\<exists>ctxs sids. history ?sd ! (2 * i + 1)
             = Answer_entry ''assistant'' (answer (?log ! i)) ctxs sids [])"
  proof (intro allI impI)
    fix i assume i: "i < length ?log"
    from nth_turn_entries [OF i, of ?base]
    show "history ?sd ! (2 * i) = Question_entry ''user'' (question (?log ! i)) \<and>
          (\<exists>ctxs sids. history ?sd ! (2 * i + 1)
             = Answer_entry ''assistant'' (answer (?log ! i)) ctxs sids [])"
      by (simp add: turn_entries_def)
  qed
  from ex len idx show ?thesis by blast
qed

text \<open>
The history of the one-turn session \<open>state1\<close> has two entries.
\<close>

theorem history_alternates_witness:
  "conversation_log state1 \<noteq> [] \<and> log_wf (conversation_log state1) \<and>
   (\<exists>sd fname.
      export_conversation 1735725601 ''20250101_100001'' state1
        = Inr (Download_button [sd] fname) \<and>
      length (history sd) = 2 \<and>
      history sd ! 0 = Question_entry ''user'' long_question \<and>
      role (history sd ! 1) = ''assistant'' \<and>
      content (history sd ! 1) = ''Fidelity and assistance.'' \<and>
      ground_truth (history sd ! 1) = [])"
proof -
  have ne: "conversation_log state1 \<noteq> []" by (simp add: state1_def)
  have wf: "log_wf (conversation_log state1)"
    by (simp add: log_wf_def state1_def turn1_def civil_code_def)
  from history_alternates [OF ne wf, of 1735725601 "''20250101_100001''"]
  obtain sd fname where
    e: "export_conversation 1735725601 ''20250101_100001'' state1 = Inr (Download_button [sd] fname)"
    and l: "length (history sd) = 2 * length (conversation_log state1)"
    and a: "\<forall>i<length (conversation_log state1).
          history sd ! (2 * i) = Question_entry ''user'' (question (conversation_log state1 ! i)) \<and>
          (\<exists>ctxs sids. history sd ! (2 * i + 1)
             = Answer_entry ''assistant'' (answer (conversation_log state1 ! i)) ctxs sids [])"
    by blast
  from a have "history sd ! 0 = Question_entry ''user'' long_question \<and>
      (\<exists>ctxs sids. history sd ! 1 = Answer_entry ''assistant'' ''Fidelity and assistance.'' ctxs sids [])"
    by (simp add: state1_def turn1_def)
  then have "history sd ! 0 = Question_entry ''user'' long_question \<and>
      role (history sd ! 1) = ''assistant'' \<and>
      content (history sd ! 1) = ''Fidelity and assistance.'' \<and>
      ground_truth (history sd ! 1) = []"
    by auto
  moreover from l have "length (history sd) = 2" by (simp add: state1_def)
  ultimately show ?thesis using ne wf e by blast
qed

text \<open>
  Claim C7. The title of the exported session is computed from the question of the first
  turn: its first 60 characters followed by three dots when it is longer than 60
  characters, and the question itself otherwise (a question of exactly 60 characters is
  not longer than 60).
\<close>

theorem title_of_first_question:
  assumes log: "conversation_log st = t # ts" and wf: "log_wf (conversation_log st)"
  shows "\<exists>sd fname.
      export_conversation now_seconds now_stamp st = Inr (Download_button [sd] fname) \<and>
      title sd = (if length (question t) > 60 then take 60 (question t) @ ''...''
                  else question t)"
  using export_conversation_wf [OF log wf, of now_seconds now_stamp]
  by (simp add: make_title_def)

text \<open>
A question of 77 characters is cut to 60 characters and the three dots.
\<close>

theorem title_of_first_question_witness:
  "conversation_log state1 = turn1 # [] \<and> log_wf (conversation_log state1) \<and>
   length (question turn1) = 77 \<and>
   (\<exists>sd fname.
      export_conversation 1735725602 ''20250101_100002'' state1
        = Inr (Download_button [sd] fname) \<and>
      title sd = ''Which duties do spouses have towards each other under the It...'')"
proof -
  have log: "conversation_log state1 = turn1 # []" by (simp add: state1_def)
  have wf: "log_wf (conversation_log state1)"
    by (simp add: log_wf_def state1_def turn1_def civil_code_def)
  have q: "length (question turn1) = 77" by (simp add: turn1_def long_question_def)
  from title_of_first_question [OF log wf, of 1735725602 "''20250101_100002''"]
  show ?thesis using log wf q by (simp add: turn1_def long_question_def)
qed

text \<open>
  The export of an empty log returns normally: it leaves the sidebar warning, and no
  exception reaches the caller.
\<close>

theorem export_empty_log_counterexample:
  "conversation_log state0 = [] \<and>
   export_conversation 1735725600 ''20250101_100000'' state0
     = Inr (Sidebar_warning ''No conversation to export'') \<and>
   \<not> isl (export_conversation 1735725600 ''20250101_100000'' state0)"
  by (simp add: export_conversation_def state0_def)

text \<open>
  Claim C4, amended. An export attempted on an empty conversation log does not raise: it
  shows the sidebar warning \<^verbatim>\<open>No conversation to export\<close> and returns, and no download
  button, hence no session document, is produced.
\<close>

theorem export_empty_log:
  assumes "conversation_log st = []"
  shows "export_conversation now_seconds now_stamp st
           = Inr (Sidebar_warning ''No conversation to export'')"
  using assms by (simp add: export_conversation_def)

text \<open>
After the conversation is cleared, the export only warns.
\<close>

theorem export_empty_log_witness:
  "conversation_log (clear_conversation state1) = [] \<and>
   export_conversation 1735725700 ''20250101_100140'' (clear_conversation state1)
     = Inr (Sidebar_warning ''No conversation to export'')"
proof -
  have "conversation_log (clear_conversation state1) = []"
    by (simp add: clear_conversation_def)
  with export_empty_log [of "clear_conversation state1" 1735725700 "''20250101_100140''"]
  show ?thesis by simp
qed

text \<open>
  Claim C9. Two exports of the same conversation log under the same name of the data
  root, at any two times and whatever else differs in the session, end the same way: both
  raise the same exception, or both warn, or both produce one session, and then the two
  sessions have the same title and the same history and differ at most in the
  time-derived \<^verbatim>\<open>id\<close>.
\<close>

theorem export_deterministic:
  assumes log: "conversation_log st1 = conversation_log st2"
    and root: "path_name (data_base_dir (config st1)) = path_name (data_base_dir (config st2))"
  shows "(\<forall>e. export_conversation n1 s1 st1 = Inl e \<longrightarrow>
            export_conversation n2 s2 st2 = Inl e) \<and>
         (\<forall>w. export_conversation n1 s1 st1 = Inr (Sidebar_warning w) \<longrightarrow>
            export_conversation n2 s2 st2 = Inr (Sidebar_warning w)) \<and>
         (\<forall>sds f. export_conversation n1 s1 st1 = Inr (Download_button sds f) \<longrightarrow>
            (\<exists>sd1 sd2 f2. sds = [sd1] \<and>
               export_conversation n2 s2 st2 = Inr (Download_button [sd2] f2) \<and>
               title sd2 = title sd1 \<and> history sd2 = history sd1 \<and>
               sd2 = sd1\<lparr>session_id := n2\<rparr>))"
proof (cases "conversation_log st2")
  case Nil
  with log show ?thesis by (simp add: export_conversation_def)
next
  case (Cons t ts)
  show ?thesis
  proof (cases "export_history (path_name (data_base_dir (config st2))) (t # ts) []")
    case (Inl e)
    with log root Cons show ?thesis
      by (simp add: export_conversation_def Let_def del: export_history.simps)
  next
    case (Inr hist)
    with log root Cons show ?thesis
      by (simp add: export_conversation_def Let_def del: export_history.simps)
  qed
qed

text \<open>
Two exports of one log, a day apart and with the data directory moved.
\<close>

theorem export_deterministic_witness:
  "conversation_log state1 = conversation_log state1_moved \<and>
   path_name (data_base_dir (config state1)) = path_name (data_base_dir (config state1_moved)) \<and>
   (\<exists>sd1 sd2 f1 f2.
      export_conversation 1735725600 ''20250101_100000'' state1
        = Inr (Download_button [sd1] f1) \<and>
      export_conversation 1735812000 ''20250102_100000'' state1_moved
        = Inr (Download_button [sd2] f2) \<and>
      title sd2 = title sd1 \<and> history sd2 = history sd1 \<and>
      session_id sd1 = 1735725600 \<and> session_id sd2 = 1735812000)"
proof -
  have log: "conversation_log state1 = conversation_log state1_moved"
    by (simp add: state1_moved_def)
  have root: "path_name (data_base_dir (config state1))
      = path_name (data_base_dir (config state1_moved))"
    by (simp add: state1_moved_def state1_def config0_def path_name_def path_parts_def
        parts_name_def)
  have e1: "export_conversation 1735725600 ''20250101_100000'' state1 =
     Inr (Download_button
       [\<lparr>session_id = 1735725600,
         title = ''Which duties do spouses have towards each other under the It...'',
         history = [Question_entry ''user'' long_question,
                    Answer_entry ''assistant'' ''Fidelity and assistance.'' [''Art. 143'']
                      [PStr ''Contest_Data/italy_codes/civil_code.pdf''] []]\<rparr>]
       ''chat_session_20250101_100000.json'')"
    by (simp add: export_conversation_def state1_def turn1_def civil_code_def config0_def
      export_source_def source_id_of_def relative_path_def str_find_def replace_backslash_def
      strip_def is_space_def make_title_def long_question_def
      path_name_def path_parts_def parts_name_def)
  let ?sd1 = "\<lparr>session_id = 1735725600,
         title = ''Which duties do spouses have towards each other under the It...'',
         history = [Question_entry ''user'' long_question,
                    Answer_entry ''assistant'' ''Fidelity and assistance.'' [''Art. 143'']
                      [PStr ''Contest_Data/italy_codes/civil_code.pdf''] []]\<rparr>"
  from export_deterministic [OF log root, of 1735725600 "''20250101_100000''"
      1735812000 "''20250102_100000''"] e1
  obtain sd1 sd2 f2 where
    s: "[?sd1] = [sd1]"
    and e2: "export_conversation 1735812000 ''20250102_100000'' state1_moved
        = Inr (Download_button [sd2] f2)"
    and t: "title sd2 = title sd1" and h: "history sd2 = history sd1"
    and i: "sd2 = sd1\<lparr>session_id := 1735812000\<rparr>"
    by blast
  from s have sd1: "sd1 = ?sd1" by simp
  have "export_conversation 1735725600 ''20250101_100000'' state1
        = Inr (Download_button [sd1] ''chat_session_20250101_100000.json'') \<and>
      export_conversation 1735812000 ''20250102_100000'' state1_moved
        = Inr (Download_button [sd2] f2) \<and>
      title sd2 = title sd1 \<and> history sd2 = history sd1 \<and>
      session_id sd1 = 1735725600 \<and> session_id sd2 = 1735812000"
    using e1 e2 t h i by (simp add: sd1)
  then have "\<exists>sd1 sd2 f1 f2.
      export_conversation 1735725600 ''20250101_100000'' state1
        = Inr (Download_button [sd1] f1) \<and>
      export_conversation 1735812000 ''20250102_100000'' state1_moved
        = Inr (Download_button [sd2] f2) \<and>
      title sd2 = title sd1 \<and> history sd2 = history sd1 \<and>
      session_id sd1 = 1735725600 \<and> session_id sd2 = 1735812000"
    by blast
  with log root show ?thesis by blast
qed

subsection \<open>Claims about the handler and the logger\<close>

text \<open>
  Claim C5. When the pipeline call raises, whatever the exception, handling the user
  input leaves the conversation log as it was.
\<close>

theorem failed_pipeline_logs_no_turn:
  assumes "answer_question prompt (config st) show_reasoning = Inl e"
  shows "conversation_log (fst (handle_user_input answer_question now prompt show_reasoning st))
           = conversation_log st"
  using assms by (simp add: handle_user_input_def on_exception_def)

text \<open>
A pipeline that refuses the connection leaves the one-turn log untouched.
\<close>

theorem failed_pipeline_logs_no_turn_witness:
  "failing_pipeline ''What is divorce?'' (config state1) False
     = Inl (PipelineException ''connection refused'') \<and>
   conversation_log (fst (handle_user_input failing_pipeline ''2025-01-01T10:05:00''
                            ''What is divorce?'' False state1)) = [turn1]"
proof -
  have f: "failing_pipeline ''What is divorce?'' (config state1) False
     = Inl (PipelineException ''connection refused'')"
    by (simp add: failing_pipeline_def)
  from failed_pipeline_logs_no_turn
         [where answer_question = failing_pipeline and prompt = "''What is divorce?''"
            and st = state1 and show_reasoning = False and now = "''2025-01-01T10:05:00''",
          OF f]
  show ?thesis using f by (simp add: state1_def)
qed

text \<open>
  When the pipeline returns a document that has no metadata, the handler stops in the
  display loop with \<^verbatim>\<open>AttributeError\<close>, shows the error and logs nothing: the document
  is rejected, not logged with an empty dict.
\<close>

theorem missing_metadata_rejected_counterexample:
  "malformed_pipeline ''What is divorce?'' (config state0) False
     = Inr (''It ends a marriage.'', Some [no_metadata_doc], None, PNone) \<and>
   handle_user_input malformed_pipeline ''2025-01-01T10:00:00'' ''What is divorce?'' False state0
     = (state0\<lparr>messages := [UserMessage ''user'' ''What is divorce?'']\<rparr>,
        Error_shown AttributeError) \<and>
   conversation_log (fst (handle_user_input malformed_pipeline ''2025-01-01T10:00:00''
                            ''What is divorce?'' False state0)) = []"
  by (simp add: handle_user_input_def malformed_pipeline_def render_sources_def
      render_source_def no_metadata_doc_def on_exception_def state0_def)

text \<open>
  Claim C6, amended. A call of the logger on documents that have passed the display loop
  of the handler (the only place the logger is called from) never raises. A document that
  is missing its metadata is not logged with an empty dict in its place: when the
  pipeline returns such a document, the handler raises on it before the logger is
  called, shows the error, and the conversation log stays as it was.
\<close>

theorem logging_after_display:
  "(render_sources docs = Inr u \<longrightarrow>
      (\<exists>st'. log_conversation_turn now q a docs md st = Inr st')) \<and>
   (answer_question prompt (config st) sr = Inr (ans, Some ds, reasoning, md) \<and>
    (\<exists>d\<in>set ds. \<not> is_dict (metadata d)) \<longrightarrow>
      conversation_log (fst (handle_user_input answer_question now prompt sr st))
        = conversation_log st \<and>
      (\<exists>e. snd (handle_user_input answer_question now prompt sr st) = Error_shown e))"
proof (intro conjI impI)
  assume r: "render_sources docs = Inr u"
  let ?ds = "case docs of None \<Rightarrow> [] | Some xs \<Rightarrow> xs"
  from rendered_summaries [OF r] obtain ss where "map_exn summary_of_doc ?ds = Inr ss" ..
  then show "\<exists>st'. log_conversation_turn now q a docs md st = Inr st'"
    by (simp add: log_conversation_turn_def Let_def)
next
  assume a: "answer_question prompt (config st) sr = Inr (ans, Some ds, reasoning, md) \<and>
    (\<exists>d\<in>set ds. \<not> is_dict (metadata d))"
  then obtain d where "d \<in> set ds" and "\<not> is_dict (metadata d)" by blast
  from render_sources_rejects [OF this] obtain e
    where e: "render_sources (Some ds) = Inl e" "is_Exception e" by blast
  from a have p: "answer_question prompt (config st) sr = Inr (ans, Some ds, reasoning, md)"
    by blast
  have h: "handle_user_input answer_question now prompt sr st
      = (st\<lparr>messages := messages st @ [UserMessage ''user'' prompt]\<rparr>, Error_shown e)"
    using p e by (simp add: handle_user_input_def on_exception_def)
  show "conversation_log (fst (handle_user_input answer_question now prompt sr st))
        = conversation_log st"
    by (simp add: h)
  show "\<exists>e. snd (handle_user_input answer_question now prompt sr st) = Error_shown e"
    by (simp add: h)
qed

text \<open>
  One well-formed document is logged; a pipeline result that also holds a document
  without metadata leaves the one-turn log untouched.
\<close>

theorem logging_after_display_witness:
  "render_sources (Some [civil_doc]) = Inr () \<and>
   (\<exists>st'. log_conversation_turn ''2025-01-01T10:00:00'' long_question
            ''Fidelity and assistance.'' (Some [civil_doc]) PNone state0 = Inr st') \<and>
   mixed_pipeline ''What is divorce?'' (config state1) False
     = Inr (''It ends a marriage.'', Some [civil_doc, no_metadata_doc], None, italy_metadata) \<and>
   (\<exists>d\<in>set [civil_doc, no_metadata_doc]. \<not> is_dict (metadata d)) \<and>
   conversation_log (fst (handle_user_input mixed_pipeline ''2025-01-01T10:40:00''
                            ''What is divorce?'' False state1)) = [turn1] \<and>
   (\<exists>e. snd (handle_user_input mixed_pipeline ''2025-01-01T10:40:00''
                 ''What is divorce?'' False state1) = Error_shown e)"
proof -
  have ok: "render_sources (Some [civil_doc]) = Inr ()"
    by (simp add: render_sources_def render_source_def civil_doc_def)
  have p: "mixed_pipeline ''What is divorce?'' (config state1) False
     = Inr (''It ends a marriage.'', Some [civil_doc, no_metadata_doc], None, italy_metadata)"
    by (simp add: mixed_pipeline_def)
  have bad: "\<exists>d\<in>set [civil_doc, no_metadata_doc]. \<not> is_dict (metadata d)"
    by (simp add: no_metadata_doc_def)
  from logging_after_display [of "Some [civil_doc]" "()" "''2025-01-01T10:00:00''" long_question
      "''Fidelity and assistance.''" PNone state0] ok
  have r1: "\<exists>st'. log_conversation_turn ''2025-01-01T10:00:00'' long_question
            ''Fidelity and assistance.'' (Some [civil_doc]) PNone state0 = Inr st'"
    by blast
  from logging_after_display [where answer_question = mixed_pipeline
      and prompt = "''What is divorce?''" and st = state1 and sr = False
      and ans = "''It ends a marriage.''" and ds = "[civil_doc, no_metadata_doc]"
      and reasoning = None and md = italy_metadata and now = "''2025-01-01T10:40:00''"] p bad
  have r2: "conversation_log (fst (handle_user_input mixed_pipeline ''2025-01-01T10:40:00''
                            ''What is divorce?'' False state1)) = conversation_log state1 \<and>
      (\<exists>e. snd (handle_user_input mixed_pipeline ''2025-01-01T10:40:00''
                 ''What is divorce?'' False state1) = Error_shown e)"
    by blast
  then have r3: "conversation_log (fst (handle_user_input mixed_pipeline ''2025-01-01T10:40:00''
                            ''What is divorce?'' False state1)) = [turn1]"
    by (simp add: state1_def)
  from ok r1 p bad r2 r3 show ?thesis by blast
qed

text \<open>
  Claim C8. For every call of the logger that the page makes, that is on documents that
  have passed the display loop of the handler, the call returns a state whose log is the
  old log with exactly one turn appended: the length grows by one, the turns that were
  there are unchanged, and the question, the answer, the texts and the metadata of the
  raw sources of the new turn are the arguments unchanged.
\<close>

theorem logged_turn_verbatim:
  assumes r: "render_sources docs = Inr u"
    and ds: "ds = (case docs of None \<Rightarrow> [] | Some xs \<Rightarrow> xs)"
  shows "\<exists>st' t.
      log_conversation_turn now q a docs md st = Inr st' \<and>
      conversation_log st' = conversation_log st @ [t] \<and>
      length (conversation_log st') = length (conversation_log st) + 1 \<and>
      take (length (conversation_log st)) (conversation_log st') = conversation_log st \<and>
      question t = q \<and> answer t = a \<and>
      map rs_page_content (raw_sources t) = map page_content ds \<and>
      map rs_metadata (raw_sources t) = map metadata ds"
proof -
  from rendered_summaries [OF r] obtain ss where ss: "map_exn summary_of_doc ds = Inr ss"
    unfolding ds ..
  let ?t = "\<lparr>timestamp = now, question = q, answer = a, num_sources = length ds,
          raw_sources = map raw_of_doc ds, sources = ss,
          extracted_metadata = (if truthy md then Some md else None)\<rparr>"
  let ?st' = "st\<lparr>conversation_log := conversation_log st @ [?t]\<rparr>"
  have res: "log_conversation_turn now q a docs md st = Inr ?st'"
    using ss by (simp add: log_conversation_turn_def Let_def flip: ds)
  have raw: "map rs_page_content (raw_sources ?t) = map page_content ds \<and>
      map rs_metadata (raw_sources ?t) = map metadata ds"
    by (simp add: raw_of_doc_def comp_def)
  show ?thesis
  proof (intro exI conjI)
    show "log_conversation_turn now q a docs md st = Inr ?st'" by (rule res)
    show "conversation_log ?st' = conversation_log st @ [?t]" by simp
    show "length (conversation_log ?st') = length (conversation_log st) + 1" by simp
    show "take (length (conversation_log st)) (conversation_log ?st') = conversation_log st"
      by simp
    show "question ?t = q" by simp
    show "answer ?t = a" by simp
    show "map rs_page_content (raw_sources ?t) = map page_content ds" using raw by blast
    show "map rs_metadata (raw_sources ?t) = map metadata ds" using raw by blast
  qed
qed

text \<open>
A second turn logged on the one-turn session.
\<close>

theorem logged_turn_verbatim_witness:
  "render_sources (Some [civil_doc]) = Inr () \<and>
   (\<exists>st' t.
      log_conversation_turn ''2025-01-01T10:20:00'' ''What is divorce?'' ''It ends a marriage.''
        (Some [civil_doc]) italy_metadata state1 = Inr st' \<and>
      conversation_log st' = [turn1, t] \<and>
      question t = ''What is divorce?'' \<and> answer t = ''It ends a marriage.'' \<and>
      map rs_page_content (raw_sources t) = ['' Art. 143 ''] \<and>
      map rs_metadata (raw_sources t) =
        [PDict [(''source'', PStr ''/home/x/Contest_Data/italy_codes/civil_code.pdf'')]])"
proof -
  have ok: "render_sources (Some [civil_doc]) = Inr ()"
    by (simp add: render_sources_def render_source_def civil_doc_def)
  have ds: "[civil_doc] = (case Some [civil_doc] of None \<Rightarrow> [] | Some xs \<Rightarrow> xs)" by simp
  from logged_turn_verbatim [OF ok ds, of "''2025-01-01T10:20:00''" "''What is divorce?''"
      "''It ends a marriage.''" italy_metadata state1]
  obtain st' t where
    "log_conversation_turn ''2025-01-01T10:20:00'' ''What is divorce?'' ''It ends a marriage.''
        (Some [civil_doc]) italy_metadata state1 = Inr st'"
    "conversation_log st' = conversation_log state1 @ [t]"
    "question t = ''What is divorce?''" "answer t = ''It ends a marriage.''"
    "map rs_page_content (raw_sources t) = map page_content [civil_doc]"
    "map rs_metadata (raw_sources t) = map metadata [civil_doc]"
    by blast
  then have c: "log_conversation_turn ''2025-01-01T10:20:00'' ''What is divorce?''
        ''It ends a marriage.'' (Some [civil_doc]) italy_metadata state1 = Inr st'"
      "conversation_log st' = [turn1, t]"
      "question t = ''What is divorce?''" "answer t = ''It ends a marriage.''"
      "map rs_page_content (raw_sources t) = ['' Art. 143 '']"
      "map rs_metadata (raw_sources t) =
        [PDict [(''source'', PStr ''/home/x/Contest_Data/italy_codes/civil_code.pdf'')]]"
    by (simp_all add: state1_def civil_doc_def)
  show ?thesis
  proof (intro conjI exI)
    show "render_sources (Some [civil_doc]) = Inr ()" by (rule ok)
    show "log_conversation_turn ''2025-01-01T10:20:00'' ''What is divorce?''
        ''It ends a marriage.'' (Some [civil_doc]) italy_metadata state1 = Inr st'"
      by (rule c)
    show "conversation_log st' = [turn1, t]" by (rule c)
    show "question t = ''What is divorce?''" by (rule c)
    show "answer t = ''It ends a marriage.''" by (rule c)
    show "map rs_page_content (raw_sources t) = ['' Art. 143 '']" by (rule c)
    show "map rs_metadata (raw_sources t) =
        [PDict [(''source'', PStr ''/home/x/Contest_Data/italy_codes/civil_code.pdf'')]]"
      by (rule c)
  qed
qed

text \<open>
  Claim C10. The turn appended by a call of the logger carries the key
  \<^verbatim>\<open>extracted_metadata\<close>, with the argument as its value, exactly when the metadata
  argument is truthy; for \<^verbatim>\<open>None\<close> and for an empty dict the key is absent.
\<close>

theorem extracted_metadata_iff_truthy:
  "(\<forall>st'. log_conversation_turn now q a docs md st = Inr st' \<longrightarrow>
      extracted_metadata (last (conversation_log st')) = (if truthy md then Some md else None)) \<and>
   (\<forall>st'. log_conversation_turn now q a docs PNone st = Inr st' \<longrightarrow>
      extracted_metadata (last (conversation_log st')) = None) \<and>
   (\<forall>st'. log_conversation_turn now q a docs (PDict []) st = Inr st' \<longrightarrow>
      extracted_metadata (last (conversation_log st')) = None)"
proof -
  have g: "extracted_metadata (last (conversation_log st')) = (if truthy m then Some m else None)"
    if "log_conversation_turn now q a docs m st = Inr st'" for m st'
    using that by (rule log_conversation_turn_Inr) simp
  show ?thesis
  proof (intro conjI allI impI)
    fix st' assume "log_conversation_turn now q a docs md st = Inr st'"
    then show "extracted_metadata (last (conversation_log st'))
        = (if truthy md then Some md else None)"
      by (rule g)
  next
    fix st' assume "log_conversation_turn now q a docs PNone st = Inr st'"
    from g [OF this] show "extracted_metadata (last (conversation_log st')) = None" by simp
  next
    fix st' assume "log_conversation_turn now q a docs (PDict []) st = Inr st'"
    from g [OF this] show "extracted_metadata (last (conversation_log st')) = None" by simp
  qed
qed

text \<open>
The key is absent for \<^verbatim>\<open>None\<close> and for the empty dict, present for a non-empty dict.
\<close>

theorem extracted_metadata_iff_truthy_witness:
  "log_conversation_turn ''2025-01-01T10:00:00'' long_question ''Fidelity and assistance.''
     (Some [civil_doc]) PNone state0 = Inr state1 \<and>
   extracted_metadata (last (conversation_log state1)) = None \<and>
   (\<exists>st'. log_conversation_turn ''2025-01-01T10:30:00'' ''What is divorce?''
             ''It ends a marriage.'' None italy_metadata state1 = Inr st' \<and>
          extracted_metadata (last (conversation_log st')) = Some italy_metadata) \<and>
   (\<exists>st'. log_conversation_turn ''2025-01-01T10:30:00'' ''What is divorce?''
             ''It ends a marriage.'' None (PDict []) state1 = Inr st' \<and>
          extracted_metadata (last (conversation_log st')) = None)"
proof -
  have l1: "log_conversation_turn ''2025-01-01T10:00:00'' long_question
      ''Fidelity and assistance.'' (Some [civil_doc]) PNone state0 = Inr state1"
    by (simp add: log_conversation_turn_def summary_of_doc_def civil_doc_def state0_def
        state1_def turn1_def civil_code_def raw_of_doc_def path_parent_name_def path_name_def
        path_parts_def parts_name_def)
  obtain s2 where l2: "log_conversation_turn ''2025-01-01T10:30:00'' ''What is divorce?''
             ''It ends a marriage.'' None italy_metadata state1 = Inr s2"
    by (simp add: log_conversation_turn_def Let_def)
  obtain s3 where l3: "log_conversation_turn ''2025-01-01T10:30:00'' ''What is divorce?''
             ''It ends a marriage.'' None (PDict []) state1 = Inr s3"
    by (simp add: log_conversation_turn_def Let_def)
  from extracted_metadata_iff_truthy [of "''2025-01-01T10:00:00''" long_question
      "''Fidelity and assistance.''" "Some [civil_doc]" PNone state0] l1
  have e1: "extracted_metadata (last (conversation_log state1)) = None" by simp
  from extracted_metadata_iff_truthy [of "''2025-01-01T10:30:00''" "''What is divorce?''"
      "''It ends a marriage.''" None italy_metadata state1] l2
  have e2: "extracted_metadata (last (conversation_log s2)) = Some italy_metadata"
    by (simp add: italy_metadata_def)
  from extracted_metadata_iff_truthy [of "''2025-01-01T10:30:00''" "''What is divorce?''"
      "''It ends a marriage.''" None "PDict []" state1] l3
  have e3: "extracted_metadata (last (conversation_log s3)) = None" by simp
  from l1 e1 l2 e2 l3 e3 show ?thesis by blast
qed

end
